theory Spec2Isabelle
  imports Complex_Main
begin

section \<open>The jobs table of queuectl\<close>

text \<open>
  A shallow embedding of \<^verbatim>\<open>src/storage.py\<close> (class \<^verbatim>\<open>Storage\<close>) and
  \<^verbatim>\<open>src/executor.py\<close> (class \<^verbatim>\<open>Executor\<close>).

  Modelling decisions:
  \<^item> The SQLite table \<^verbatim>\<open>jobs\<close> is the list of its rows in insertion (rowid) order.
    Every method of \<^verbatim>\<open>Storage\<close> opens a connection, runs its statements and commits;
    the model passes the table in and returns the committed table.
  \<^item> A timestamp is the number of microseconds (the resolution of \<^verbatim>\<open>datetime\<close>)
    since 0001-01-01T00:00:00 UTC, which is \<^verbatim>\<open>datetime.min\<close>. The code stores
    \<^verbatim>\<open>isoformat()\<close> strings of UTC datetimes and compares them as strings, which
    orders them as the instants they denote. The value of
    \<^verbatim>\<open>datetime.now(timezone.utc)\<close> read by a call is the parameter \<open>now\<close>.
  \<^item> \<^verbatim>\<open>datetime\<close> and \<^verbatim>\<open>timedelta\<close> have a finite range, and arithmetic that
    leaves it raises \<^verbatim>\<open>OverflowError\<close>; so does binding a Python integer outside 64
    bits to an SQLite parameter. A method that raises returns \<open>Inl\<close> of the exception; its
    connection is closed without a commit, so the table stays as it was.
  \<^item> Python integers are \<open>int\<close>. The column \<^verbatim>\<open>attempts\<close> is only ever written as
    \<open>0\<close> or as \<open>attempts + 1\<close>, so it is a \<open>nat\<close>; it would leave the 64 bits of an
    SQLite INTEGER only after \<open>2 ^ 63\<close> acquisitions of one job, which is not modelled.
  \<^item> A \<^verbatim>\<open>next_run_at\<close> that the caller of \<^verbatim>\<open>enqueue_job\<close> supplies is a
    timestamp, that is, a text in the format the code itself writes; the code stores the text
    it is given and compares it as text.
  \<^item> SQL \<^verbatim>\<open>NULL\<close> in a nullable column is \<open>None\<close>.
\<close>

type_synonym timestamp = int

datatype py_error = OverflowError

definition datetime_limit :: int where
  \<comment> \<open>the first microsecond after \<^verbatim>\<open>datetime.max\<close> = 9999-12-31T23:59:59.999999:
      3652059 days of 86400 seconds\<close>
  "datetime_limit = 315537897600000000"

definition timedelta_seconds :: "int \<Rightarrow> py_error + int" where
  \<comment> \<open>\<^verbatim>\<open>timedelta(seconds=n)\<close>, in microseconds; a \<^verbatim>\<open>timedelta\<close> holds at most
      999999999 days in either direction\<close>
  "timedelta_seconds n =
     (if - 999999999 \<le> n div 86400 \<and> n div 86400 \<le> 999999999 then Inr (n * 1000000)
      else Inl OverflowError)"

definition datetime_add :: "timestamp \<Rightarrow> int \<Rightarrow> py_error + timestamp" where
  \<comment> \<open>\<^verbatim>\<open>dt + delta\<close>\<close>
  "datetime_add dt delta =
     (if 0 \<le> dt + delta \<and> dt + delta < datetime_limit then Inr (dt + delta)
      else Inl OverflowError)"

definition datetime_sub :: "timestamp \<Rightarrow> int \<Rightarrow> py_error + timestamp" where
  \<comment> \<open>\<^verbatim>\<open>dt - delta\<close>\<close>
  "datetime_sub dt delta =
     (if 0 \<le> dt - delta \<and> dt - delta < datetime_limit then Inr (dt - delta)
      else Inl OverflowError)"

definition sqlite_integer :: "int \<Rightarrow> bool" where
  \<comment> \<open>a Python integer that can be bound to an SQLite parameter: a signed 64-bit value\<close>
  "sqlite_integer i \<longleftrightarrow> - 9223372036854775808 \<le> i \<and> i \<le> 9223372036854775807"

datatype job_state = Pending | Processing | Completed | Failed | Dead

record job_row =
  job_id :: string
  command :: string
  state :: job_state
  attempts :: nat
  max_retries :: int
  created_at :: timestamp
  updated_at :: timestamp
  next_run_at :: timestamp
  last_error :: "string option"
  locked_by :: "string option"
  locked_at :: "timestamp option"

type_synonym jobs_table = "job_row list"

text \<open>
  The dictionary handed to \<^verbatim>\<open>enqueue_job\<close>: the keys \<^verbatim>\<open>id\<close> and \<^verbatim>\<open>command\<close>
  are read with \<^verbatim>\<open>job[...]\<close>, the keys \<^verbatim>\<open>max_retries\<close> and \<^verbatim>\<open>next_run_at\<close>
  with \<^verbatim>\<open>job.get(..., default)\<close>, so the latter two may be absent (\<open>None\<close>).
  The values have the types of the job schema: the id is a string and \<^verbatim>\<open>max_retries\<close>
  an integer; the command is a string and \<^verbatim>\<open>next_run_at\<close> a timestamp, or either is
  Python's \<^verbatim>\<open>None\<close> (\<open>PyNone\<close>), which SQLite binds as \<^verbatim>\<open>NULL\<close>.
\<close>

datatype 'a nullable = PyNone | Value 'a

record job_dict =
  dict_id :: string
  dict_command :: "string nullable"
  dict_max_retries :: "int option"
  dict_next_run_at :: "timestamp nullable option"

subsection \<open>The SQL statements the code uses\<close>

datatype sqlite_error = IntegrityError

definition sql_select :: "(job_row \<Rightarrow> bool) \<Rightarrow> jobs_table \<Rightarrow> job_row list" where
  \<comment> \<open>\<^verbatim>\<open>SELECT * FROM jobs WHERE w\<close>\<close>
  "sql_select w tbl = filter w tbl"

text \<open>
  \<^verbatim>\<open>ORDER BY created_at LIMIT 1\<close> yields a row with the least \<open>created_at\<close>. Which one
  it is when several rows share the least value is left open by SQL and depends on how SQLite
  scans the table; the number \<open>tie\<close> stands for that choice.
\<close>

definition order_by_created_at_limit_1 :: "nat \<Rightarrow> job_row list \<Rightarrow> job_row list" where
  "order_by_created_at_limit_1 tie rows =
     (case sort_key created_at rows of
        [] \<Rightarrow> []
      | r # rs \<Rightarrow>
          (let least = r # takeWhile (\<lambda>x. created_at x = created_at r) rs
           in [least ! (tie mod length least)]))"

definition fetchone :: "job_row list \<Rightarrow> job_row option" where
  "fetchone rows = (case rows of [] \<Rightarrow> None | r # _ \<Rightarrow> Some r)"

definition sql_update :: "(job_row \<Rightarrow> bool) \<Rightarrow> (job_row \<Rightarrow> job_row) \<Rightarrow> jobs_table \<Rightarrow> jobs_table" where
  \<comment> \<open>\<^verbatim>\<open>UPDATE jobs SET ... WHERE w\<close>\<close>
  "sql_update w f tbl = map (\<lambda>r. if w r then f r else r) tbl"

definition sql_delete :: "(job_row \<Rightarrow> bool) \<Rightarrow> jobs_table \<Rightarrow> jobs_table" where
  \<comment> \<open>\<^verbatim>\<open>DELETE FROM jobs WHERE w\<close>\<close>
  "sql_delete w tbl = filter (\<lambda>r. \<not> w r) tbl"

definition total_changes :: "(job_row \<Rightarrow> bool) \<Rightarrow> jobs_table \<Rightarrow> nat" where
  \<comment> \<open>\<^verbatim>\<open>conn.total_changes\<close> of a fresh connection after one UPDATE or DELETE
      with the condition \<open>w\<close>: the number of rows it matched\<close>
  "total_changes w tbl = length (filter w tbl)"

definition sql_insert :: "job_row \<Rightarrow> jobs_table \<Rightarrow> sqlite_error + jobs_table" where
  \<comment> \<open>\<^verbatim>\<open>INSERT INTO jobs\<close>; \<^verbatim>\<open>id TEXT PRIMARY KEY\<close> rejects a second row with the same id\<close>
  "sql_insert r tbl =
     (if \<exists>x \<in> set tbl. job_id x = job_id r then Inl IntegrityError else Inr (tbl @ [r]))"

definition not_null :: "'a nullable \<Rightarrow> sqlite_error + 'a" where
  \<comment> \<open>a value bound to a \<^verbatim>\<open>NOT NULL\<close> column\<close>
  "not_null v = (case v of PyNone \<Rightarrow> Inl IntegrityError | Value x \<Rightarrow> Inr x)"

subsection \<open>Storage\<close>

definition get_job :: "string \<Rightarrow> jobs_table \<Rightarrow> job_row option" where
  "get_job jid tbl = fetchone (sql_select (\<lambda>r. job_id r = jid) tbl)"

text \<open>
  \<^verbatim>\<open>enqueue_job\<close> catches \<^verbatim>\<open>sqlite3.IntegrityError\<close> only. The parameters of the
  INSERT are bound before the statement runs, so an integer that does not fit raises
  \<^verbatim>\<open>OverflowError\<close> whatever the table holds; then the \<^verbatim>\<open>NOT NULL\<close> columns
  \<^verbatim>\<open>command\<close> and \<^verbatim>\<open>next_run_at\<close> and the primary key are checked, and each
  violation is an \<^verbatim>\<open>IntegrityError\<close>.
\<close>

definition enqueue_job ::
  "timestamp \<Rightarrow> job_dict \<Rightarrow> jobs_table \<Rightarrow> py_error + bool \<times> jobs_table" where
  "enqueue_job now job tbl =
     (let max_retries_value = (case dict_max_retries job of None \<Rightarrow> 3 | Some m \<Rightarrow> m);
          next_run_at_value = (case dict_next_run_at job of None \<Rightarrow> Value now | Some v \<Rightarrow> v)
      in if \<not> sqlite_integer max_retries_value then Inl OverflowError
         else
           (case not_null (dict_command job) of
              Inl IntegrityError \<Rightarrow> Inr (False, tbl)
            | Inr command_value \<Rightarrow>
                (case not_null next_run_at_value of
                   Inl IntegrityError \<Rightarrow> Inr (False, tbl)
                 | Inr next_run_at_text \<Rightarrow>
                     (case sql_insert
                             \<lparr> job_id = dict_id job,
                               command = command_value,
                               state = Pending,
                               attempts = 0,
                               max_retries = max_retries_value,
                               created_at = now,
                               updated_at = now,
                               next_run_at = next_run_at_text,
                               last_error = None,
                               locked_by = None,
                               locked_at = None \<rparr> tbl of
                        Inr tbl' \<Rightarrow> Inr (True, tbl')
                      | Inl IntegrityError \<Rightarrow> Inr (False, tbl)))))"

text \<open>
  \<^verbatim>\<open>acquire_job\<close> catches \<^verbatim>\<open>sqlite3.OperationalError\<close> (the database is locked by
  another connection), rolls back and returns \<^verbatim>\<open>None\<close>; the flag \<open>contended\<close> says
  that this happened.
\<close>

definition acquire_job ::
  "string \<Rightarrow> timestamp \<Rightarrow> bool \<Rightarrow> nat \<Rightarrow> jobs_table \<Rightarrow> job_row option \<times> jobs_table" where
  "acquire_job worker_id now contended tie tbl =
     (if contended then (None, tbl)
      else
        (case fetchone (order_by_created_at_limit_1 tie
                (sql_select (\<lambda>r. state r = Pending \<and> next_run_at r \<le> now) tbl)) of
           Some row \<Rightarrow>
             (let tbl' = sql_update (\<lambda>r. job_id r = job_id row)
                           (\<lambda>r. r\<lparr> state := Processing,
                                  locked_by := Some worker_id,
                                  locked_at := Some now,
                                  attempts := attempts r + 1,
                                  updated_at := now \<rparr>) tbl
              in (fetchone (sql_select (\<lambda>r. job_id r = job_id row) tbl'), tbl'))
         | None \<Rightarrow> (None, tbl)))"

definition update_job_success :: "timestamp \<Rightarrow> string \<Rightarrow> jobs_table \<Rightarrow> jobs_table" where
  "update_job_success now jid tbl =
     sql_update (\<lambda>r. job_id r = jid)
       (\<lambda>r. r\<lparr> state := Completed, updated_at := now, locked_by := None, locked_at := None \<rparr>) tbl"

text \<open>
  In \<^verbatim>\<open>update_job_failure\<close> the line
  \<^verbatim>\<open>next_run = now + timedelta(seconds=delay_seconds)\<close> raises \<^verbatim>\<open>OverflowError\<close>
  when the delay or the sum is out of range; nothing catches it and nothing was written before.
\<close>

definition update_job_failure ::
  "timestamp \<Rightarrow> string \<Rightarrow> string \<Rightarrow> int \<Rightarrow> jobs_table \<Rightarrow> py_error + jobs_table" where
  "update_job_failure now jid error backoff_base tbl =
     (case fetchone (sql_select (\<lambda>r. job_id r = jid) tbl) of
        None \<Rightarrow> Inr tbl
      | Some row \<Rightarrow>
          (if int (attempts row) \<ge> max_retries row then
             Inr (sql_update (\<lambda>r. job_id r = jid)
               (\<lambda>r. r\<lparr> state := Dead,
                      updated_at := now,
                      last_error := Some error,
                      locked_by := None,
                      locked_at := None \<rparr>) tbl)
           else
             (let delay_seconds = backoff_base ^ attempts row
              in case timedelta_seconds delay_seconds of
                   Inl e \<Rightarrow> Inl e
                 | Inr delta \<Rightarrow>
                     (case datetime_add now delta of
                        Inl e \<Rightarrow> Inl e
                      | Inr next_run \<Rightarrow>
                          Inr (sql_update (\<lambda>r. job_id r = jid)
                            (\<lambda>r. r\<lparr> state := Failed,
                                   updated_at := now,
                                   next_run_at := next_run,
                                   last_error := Some error,
                                   locked_by := None,
                                   locked_at := None \<rparr>) tbl)))))"

definition retry_dlq_job :: "timestamp \<Rightarrow> string \<Rightarrow> bool \<Rightarrow> jobs_table \<Rightarrow> bool \<times> jobs_table" where
  "retry_dlq_job now jid reset_attempts tbl =
     (let w = (\<lambda>r. job_id r = jid \<and> state r = Dead);
          tbl' = (if reset_attempts then
                    sql_update w
                      (\<lambda>r. r\<lparr> state := Pending,
                             attempts := 0,
                             next_run_at := now,
                             updated_at := now,
                             last_error := None \<rparr>) tbl
                  else
                    sql_update w
                      (\<lambda>r. r\<lparr> state := Pending,
                             next_run_at := now,
                             updated_at := now,
                             last_error := None \<rparr>) tbl)
      in if total_changes w tbl > 0 then (True, tbl') else (False, tbl))"

definition delete_dlq_job :: "string \<Rightarrow> jobs_table \<Rightarrow> bool \<times> jobs_table" where
  "delete_dlq_job jid tbl =
     (let w = (\<lambda>r. job_id r = jid \<and> state r = Dead);
          tbl' = sql_delete w tbl
      in if total_changes w tbl > 0 then (True, tbl') else (False, tbl))"

text \<open>
  In \<^verbatim>\<open>recover_abandoned_jobs\<close> the cutoff
  \<^verbatim>\<open>datetime.now(timezone.utc) - timedelta(seconds=threshold_seconds)\<close> is computed first
  and raises \<^verbatim>\<open>OverflowError\<close> when the threshold or the difference is out of range.
\<close>

definition recover_abandoned_jobs ::
  "timestamp \<Rightarrow> int \<Rightarrow> jobs_table \<Rightarrow> py_error + jobs_table" where
  "recover_abandoned_jobs now threshold_seconds tbl =
     (case timedelta_seconds threshold_seconds of
        Inl e \<Rightarrow> Inl e
      | Inr delta \<Rightarrow>
          (case datetime_sub now delta of
             Inl e \<Rightarrow> Inl e
           | Inr cutoff \<Rightarrow>
               (let w = (\<lambda>r. state r = Processing \<and>
                              (case locked_at r of None \<Rightarrow> False | Some t \<Rightarrow> t < cutoff));
                    abandoned_jobs = sql_select w tbl
                in if abandoned_jobs \<noteq> [] then
                     Inr (sql_update w
                       (\<lambda>r. r\<lparr> state := Pending, locked_by := None, locked_at := None \<rparr>) tbl)
                   else Inr tbl)))"

subsection \<open>Sequences of storage operations\<close>

text \<open>
  One call of a method of \<^verbatim>\<open>Storage\<close> that writes the jobs table, with its arguments.
  A history is a list of such calls, each with the clock value it read; the table after a
  history is the table at a commit boundary. A call that raises commits nothing.
\<close>

datatype storage_op =
    Enqueue job_dict
  | Acquire string bool nat
  | Complete string
  | Fail string string int
  | RecoverAbandoned int
  | RetryDlq string bool
  | DeleteDlq string

fun apply_op :: "timestamp \<Rightarrow> storage_op \<Rightarrow> jobs_table \<Rightarrow> jobs_table" where
  "apply_op now (Enqueue job) tbl =
     (case enqueue_job now job tbl of Inl e \<Rightarrow> tbl | Inr res \<Rightarrow> snd res)"
| "apply_op now (Acquire worker_id contended tie) tbl =
     snd (acquire_job worker_id now contended tie tbl)"
| "apply_op now (Complete jid) tbl = update_job_success now jid tbl"
| "apply_op now (Fail jid error backoff_base) tbl =
     (case update_job_failure now jid error backoff_base tbl of Inl e \<Rightarrow> tbl | Inr tbl' \<Rightarrow> tbl')"
| "apply_op now (RecoverAbandoned threshold_seconds) tbl =
     (case recover_abandoned_jobs now threshold_seconds tbl of Inl e \<Rightarrow> tbl | Inr tbl' \<Rightarrow> tbl')"
| "apply_op now (RetryDlq jid reset_attempts) tbl = snd (retry_dlq_job now jid reset_attempts tbl)"
| "apply_op now (DeleteDlq jid) tbl = snd (delete_dlq_job jid tbl)"

fun run_ops :: "(timestamp \<times> storage_op) list \<Rightarrow> jobs_table \<Rightarrow> jobs_table" where
  "run_ops [] tbl = tbl"
| "run_ops ((now, op) # ops) tbl = run_ops ops (apply_op now op tbl)"

definition lease_consistent :: "job_row \<Rightarrow> bool" where
  "lease_consistent r \<longleftrightarrow>
     (locked_by r \<noteq> None \<longleftrightarrow> locked_at r \<noteq> None) \<and>
     (locked_at r \<noteq> None \<longleftrightarrow> state r = Processing)"

section \<open>The executor\<close>

text \<open>
  \<^verbatim>\<open>Executor.execute\<close> wraps \<^verbatim>\<open>subprocess.run(command, shell=True, ...)\<close> in a
  \<^verbatim>\<open>try\<close> with three handlers. What \<^verbatim>\<open>subprocess.run\<close> does for a command is the
  environment of the executor: it returns a completed process, or raises an exception of class
  \<^verbatim>\<open>Exception\<close>, of which the handlers tell apart \<^verbatim>\<open>subprocess.TimeoutExpired\<close>,
  \<^verbatim>\<open>FileNotFoundError\<close> and the rest. An exception carries the text \<^verbatim>\<open>str(e)\<close>.
  The measured \<^verbatim>\<open>duration\<close> is a parameter.
\<close>

record ExecutionResult =
  returncode :: int
  stdout :: string
  stderr :: string
  duration :: real

record CompletedProcess =
  cp_returncode :: int
  cp_stdout :: string
  cp_stderr :: string

datatype py_exception =
    TimeoutExpired string
  | FileNotFoundError string
  | OtherException string

function str_nat :: "nat \<Rightarrow> string" where
  "str_nat n =
     (if n < 10 then [''0123456789'' ! n]
      else str_nat (n div 10) @ [''0123456789'' ! (n mod 10)])"
  by pat_completeness auto
termination
  by (relation "measure (\<lambda>n. n)") auto

definition str_int :: "int \<Rightarrow> string" where
  \<comment> \<open>\<^verbatim>\<open>str(n)\<close> of a Python integer\<close>
  "str_int i = (if i < 0 then CHR ''-'' # str_nat (nat (- i)) else str_nat (nat i))"

definition execute ::
  "int \<Rightarrow> (string \<Rightarrow> py_exception + CompletedProcess) \<Rightarrow> real \<Rightarrow> string
     \<Rightarrow> py_exception + ExecutionResult" where
  "execute timeout subprocess_run elapsed cmd =
     (case subprocess_run cmd of
        Inr result \<Rightarrow>
          Inr \<lparr> returncode = cp_returncode result,
                stdout = cp_stdout result,
                stderr = cp_stderr result,
                duration = elapsed \<rparr>
      | Inl (TimeoutExpired e) \<Rightarrow>
          Inr \<lparr> returncode = - 1,
                stdout = [],
                stderr = ''Command timed out after '' @ str_int timeout @ '' seconds'',
                duration = elapsed \<rparr>
      | Inl (FileNotFoundError e) \<Rightarrow>
          Inr \<lparr> returncode = 127,
                stdout = [],
                stderr = ''Command not found: '' @ e,
                duration = elapsed \<rparr>
      | Inl (OtherException e) \<Rightarrow>
          Inr \<lparr> returncode = - 1,
                stdout = [],
                stderr = ''Execution error: '' @ e,
                duration = elapsed \<rparr>)"

section \<open>Example data\<close>

text \<open>Concrete rows, tables, jobs and a subprocess environment, used to run the model.\<close>

definition example_row :: "string \<Rightarrow> job_state \<Rightarrow> job_row" where
  "example_row jid st =
     \<lparr> job_id = jid, command = ''exit 1'', state = st, attempts = 1, max_retries = 3,
       created_at = 0, updated_at = 5, next_run_at = 7, last_error = Some ''boom'',
       locked_by = None, locked_at = None \<rparr>"

definition example_table :: jobs_table where
  "example_table =
     [example_row ''p'' Pending, example_row ''f'' Failed, example_row ''d'' Dead,
      (example_row ''r'' Processing)\<lparr> locked_by := Some ''w1'', locked_at := Some 3 \<rparr>]"

definition example_job :: "int \<Rightarrow> job_dict" where
  "example_job R =
     \<lparr> dict_id = ''j1'', dict_command = Value ''exit 1'',
       dict_max_retries = Some R, dict_next_run_at = None \<rparr>"

text \<open>
  Rows with clock values of the year 2026: \<open>63902822400000000\<close> is
  2026-01-01T00:00:00 UTC. \<open>pending_row R\<close> is the row of \<open>example_job R\<close> as
  \<open>enqueue_job\<close> inserts it at that time, \<open>leased_row R\<close> the same row after worker
  \<^verbatim>\<open>w1\<close> acquired it one second later, and \<open>other_row\<close> the row of \<open>other_job\<close>,
  enqueued half a second after \<open>example_job R\<close>.
\<close>

definition pending_row :: "int \<Rightarrow> job_row" where
  "pending_row R =
     \<lparr> job_id = ''j1'', command = ''exit 1'', state = Pending, attempts = 0,
       max_retries = R, created_at = 63902822400000000, updated_at = 63902822400000000,
       next_run_at = 63902822400000000, last_error = None,
       locked_by = None, locked_at = None \<rparr>"

definition leased_row :: "int \<Rightarrow> job_row" where
  "leased_row R =
     \<lparr> job_id = ''j1'', command = ''exit 1'', state = Processing, attempts = 1,
       max_retries = R, created_at = 63902822400000000, updated_at = 63902822401000000,
       next_run_at = 63902822400000000, last_error = None,
       locked_by = Some ''w1'', locked_at = Some 63902822401000000 \<rparr>"

definition other_job :: job_dict where
  "other_job =
     \<lparr> dict_id = ''j2'', dict_command = Value ''echo hi'',
       dict_max_retries = None, dict_next_run_at = None \<rparr>"

definition other_row :: job_row where
  "other_row =
     \<lparr> job_id = ''j2'', command = ''echo hi'', state = Pending, attempts = 0,
       max_retries = 3, created_at = 63902822400500000, updated_at = 63902822400500000,
       next_run_at = 63902822400500000, last_error = None,
       locked_by = None, locked_at = None \<rparr>"

text \<open>
  The table after \<open>example_job 3\<close> was enqueued, acquired and failed once with
  \<open>backoff_base = 2\<close>, one second after it was acquired.
\<close>

definition failed_job_table :: jobs_table where
  "failed_job_table =
     [\<lparr> job_id = ''j1'', command = ''exit 1'', state = Failed, attempts = 1, max_retries = 3,
        created_at = 0, updated_at = 1000000, next_run_at = 3000000,
        last_error = Some ''Exit code: 1'', locked_by = None, locked_at = None \<rparr>]"

definition example_run :: "string \<Rightarrow> py_exception + CompletedProcess" where
  "example_run cmd =
     (if cmd = ''sleep 9999'' then Inl (TimeoutExpired ''timed out'')
      else if cmd = ''nosh'' then Inl (FileNotFoundError ''No such file or directory'')
      else if cmd = ''bad'' then Inl (OtherException ''embedded null byte'')
      else Inr \<lparr> cp_returncode = 3, cp_stdout = ''out'', cp_stderr = ''err'' \<rparr>)"

section \<open>Auxiliary facts about the SQL statements\<close>

lemma get_job_Nil [simp]: "get_job k [] = None"
  by (simp add: get_job_def sql_select_def fetchone_def)

lemma get_job_Cons [simp]: "get_job k (r # tbl) = (if job_id r = k then Some r else get_job k tbl)"
  by (simp add: get_job_def sql_select_def fetchone_def)

lemma get_job_sql_update:
  assumes "\<And>r. job_id (f r) = job_id r"
  shows "get_job k (sql_update w f tbl) = map_option (\<lambda>r. if w r then f r else r) (get_job k tbl)"
  using assms by (induction tbl) (auto simp: sql_update_def)

lemma get_job_None_iff: "get_job k tbl = None \<longleftrightarrow> (\<forall>r \<in> set tbl. job_id r \<noteq> k)"
  by (induction tbl) auto

lemma get_job_SomeD: "get_job k tbl = Some r \<Longrightarrow> r \<in> set tbl \<and> job_id r = k"
  by (induction tbl) (auto split: if_splits)

lemma get_job_exists: "r \<in> set tbl \<Longrightarrow> \<exists>r0. get_job (job_id r) tbl = Some r0"
  by (cases "get_job (job_id r) tbl") (auto simp: get_job_None_iff)


lemma fetchone_SomeD: "fetchone rows = Some r \<Longrightarrow> r \<in> set rows"
  by (cases rows) (auto simp: fetchone_def)

lemma length_sql_update [simp]: "length (sql_update w f tbl) = length tbl"
  by (simp add: sql_update_def)

lemma nth_sql_update: "i < length tbl \<Longrightarrow> sql_update w f tbl ! i = (if w (tbl ! i) then f (tbl ! i) else tbl ! i)"
  by (simp add: sql_update_def)

lemma total_changes_pos: "total_changes w tbl > 0 \<longleftrightarrow> (\<exists>r \<in> set tbl. w r)"
  by (simp add: total_changes_def filter_empty_conv)

lemma sql_update_no_match: "\<forall>r \<in> set tbl. \<not> w r \<Longrightarrow> sql_update w f tbl = tbl"
  by (simp add: sql_update_def map_idI)

lemma sql_update_twice:
  assumes "\<And>r. w r \<Longrightarrow> w (f r)" "\<And>r. w r \<Longrightarrow> g (f r) = g r"
  shows "sql_update w g (sql_update w f tbl) = sql_update w g tbl"
  using assms by (simp add: sql_update_def)

text \<open>
  The row that \<^verbatim>\<open>ORDER BY created_at LIMIT 1\<close> yields is one of the rows and none is
  older; it yields no row only when there is none.
\<close>

lemma limit_1_least:
  assumes "fetchone (order_by_created_at_limit_1 tie rows) = Some p"
  shows "p \<in> set rows \<and> list_all (\<lambda>x. created_at p \<le> created_at x) rows"
proof (cases "sort_key created_at rows")
  case Nil
  then show ?thesis
    using assms by (simp add: order_by_created_at_limit_1_def fetchone_def)
next
  case (Cons r rs)
  let ?least = "r # takeWhile (\<lambda>x. created_at x = created_at r) rs"
  have p: "p = ?least ! (tie mod length ?least)"
    using assms Cons by (simp add: order_by_created_at_limit_1_def fetchone_def Let_def)
  have "tie mod length ?least < length ?least"
    by simp
  then have "p \<in> set ?least"
    unfolding p by (rule nth_mem)
  then have key: "created_at p = created_at r" and mem: "p \<in> set (r # rs)"
    by (auto dest: set_takeWhileD)
  have "sorted (map created_at (r # rs))"
    using sorted_sort_key [of created_at rows] Cons by simp
  then have "\<forall>x \<in> set (r # rs). created_at r \<le> created_at x"
    by auto
  moreover have "set (r # rs) = set rows"
    using set_sort [of created_at rows] Cons by simp
  ultimately have "p \<in> set rows" and "\<forall>x \<in> set rows. created_at p \<le> created_at x"
    using key mem by auto
  then show ?thesis
    by (simp add: list_all_iff)
qed

lemma limit_1_None_iff:
  "fetchone (order_by_created_at_limit_1 tie rows) = None \<longleftrightarrow> rows = []"
proof (cases "sort_key created_at rows")
  case Nil
  then have "rows = []"
    using length_sort [of created_at rows] by simp
  then show ?thesis
    by (simp add: order_by_created_at_limit_1_def fetchone_def)
next
  case (Cons r rs)
  then have "rows \<noteq> []"
    by auto
  then show ?thesis
    using Cons by (simp add: order_by_created_at_limit_1_def fetchone_def Let_def)
qed

section \<open>Auxiliary facts about the storage operations\<close>

text \<open>
  What \<open>acquire_job\<close> returns is the first row with the selected id, as the UPDATE left it,
  and that row is what \<open>get_job\<close> finds afterwards.
\<close>

lemma acquire_job_SomeD:
  assumes "acquire_job worker_id now contended tie tbl = (Some row, tbl1)"
  shows "\<exists>r0. get_job (job_id row) tbl = Some r0 \<and>
           row = r0\<lparr> state := Processing, locked_by := Some worker_id, locked_at := Some now,
                      attempts := attempts r0 + 1, updated_at := now \<rparr> \<and>
           get_job (job_id row) tbl1 = Some row"
proof -
  let ?f = "\<lambda>r. r\<lparr> state := Processing, locked_by := Some worker_id, locked_at := Some now,
                      attempts := attempts r + 1, updated_at := now \<rparr>"
  from assms obtain p where
    p: "fetchone (order_by_created_at_limit_1 tie
          (sql_select (\<lambda>r. state r = Pending \<and> next_run_at r \<le> now) tbl)) = Some p"
    and tbl1: "tbl1 = sql_update (\<lambda>r. job_id r = job_id p) ?f tbl"
    and row: "get_job (job_id p) tbl1 = Some row"
    by (auto simp: acquire_job_def Let_def get_job_def split: if_splits option.splits)
  from limit_1_least [OF p] have "p \<in> set tbl"
    by (simp add: sql_select_def)
  then obtain r0 where r0: "get_job (job_id p) tbl = Some r0"
    using get_job_exists by blast
  then have id0: "job_id r0 = job_id p"
    by (simp add: get_job_SomeD)
  have "get_job (job_id p) tbl1 = Some (?f r0)"
    unfolding tbl1 by (simp add: get_job_sql_update r0 id0)
  with row have eq: "row = ?f r0" by simp
  then have "job_id row = job_id p" by (simp add: id0)
  with r0 row eq show ?thesis by auto
qed

text \<open>
  \<open>acquire_job\<close> returns a job exactly when the database is not contended and some row is
  \<open>Pending\<close> and due; rows in any other state do not count.
\<close>

lemma acquire_job_None_iff:
  "fst (acquire_job worker_id now contended tie tbl) = None \<longleftrightarrow>
     contended \<or> \<not> (\<exists>r \<in> set tbl. state r = Pending \<and> next_run_at r \<le> now)"
proof (cases contended)
  case True
  then show ?thesis by (simp add: acquire_job_def)
next
  case False
  let ?ready = "sql_select (\<lambda>r. state r = Pending \<and> next_run_at r \<le> now) tbl"
  show ?thesis
  proof (cases "fetchone (order_by_created_at_limit_1 tie ?ready)")
    case None
    then have "?ready = []"
      by (simp add: limit_1_None_iff)
    then show ?thesis
      using False None by (auto simp: acquire_job_def sql_select_def filter_empty_conv)
  next
    case (Some p)
    from limit_1_least [OF Some] have "p \<in> set ?ready"
      by simp
    then have ex: "\<exists>r \<in> set tbl. state r = Pending \<and> next_run_at r \<le> now"
      by (auto simp: sql_select_def)
    from \<open>p \<in> set ?ready\<close> have "p \<in> set tbl"
      by (simp add: sql_select_def)
    then obtain r0 where "get_job (job_id p) tbl = Some r0"
      using get_job_exists by blast
    then have "fst (acquire_job worker_id now contended tie tbl) \<noteq> None"
      using False Some
      by (simp add: acquire_job_def Let_def get_job_def [symmetric] get_job_sql_update)
    with ex False show ?thesis by simp
  qed
qed

text \<open>
  The three outcomes of \<open>update_job_failure\<close> for the job it is called for: dead, failed
  with the backoff time, and \<^verbatim>\<open>OverflowError\<close> when the backoff time cannot be
  represented.
\<close>

lemma update_job_failure_dead:
  assumes "get_job jid tbl = Some row" and "int (attempts row) \<ge> max_retries row"
  shows "\<exists>tbl'. update_job_failure now jid error backoff_base tbl = Inr tbl' \<and>
     get_job jid tbl' =
       Some (row\<lparr> state := Dead, updated_at := now, last_error := Some error,
                  locked_by := None, locked_at := None \<rparr>)"
proof -
  have sel: "fetchone (sql_select (\<lambda>r. job_id r = jid) tbl) = Some row"
    using assms(1) by (simp add: get_job_def)
  have id: "job_id row = jid"
    using assms(1) by (simp add: get_job_SomeD)
  show ?thesis
    using assms id by (simp add: update_job_failure_def sel get_job_sql_update)
qed

lemma update_job_failure_failed:
  assumes "get_job jid tbl = Some row" and "int (attempts row) < max_retries row"
    and "- 999999999 \<le> backoff_base ^ attempts row div 86400"
    and "backoff_base ^ attempts row div 86400 \<le> 999999999"
    and "0 \<le> now + backoff_base ^ attempts row * 1000000"
    and "now + backoff_base ^ attempts row * 1000000 < 315537897600000000"
  shows "\<exists>tbl'. update_job_failure now jid error backoff_base tbl = Inr tbl' \<and>
     get_job jid tbl' =
       Some (row\<lparr> state := Failed, updated_at := now,
                  next_run_at := now + backoff_base ^ attempts row * 1000000,
                  last_error := Some error, locked_by := None, locked_at := None \<rparr>)"
proof -
  have sel: "fetchone (sql_select (\<lambda>r. job_id r = jid) tbl) = Some row"
    using assms(1) by (simp add: get_job_def)
  have id: "job_id row = jid"
    using assms(1) by (simp add: get_job_SomeD)
  show ?thesis
    using assms id
    by (simp add: update_job_failure_def sel get_job_sql_update Let_def
          timedelta_seconds_def datetime_add_def datetime_limit_def)
qed

lemma update_job_failure_raises:
  assumes "get_job jid tbl = Some row" and "int (attempts row) < max_retries row"
    and "\<not> (- 999999999 \<le> backoff_base ^ attempts row div 86400 \<and>
            backoff_base ^ attempts row div 86400 \<le> 999999999 \<and>
            0 \<le> now + backoff_base ^ attempts row * 1000000 \<and>
            now + backoff_base ^ attempts row * 1000000 < 315537897600000000)"
  shows "update_job_failure now jid error backoff_base tbl = Inl OverflowError"
proof -
  have sel: "fetchone (sql_select (\<lambda>r. job_id r = jid) tbl) = Some row"
    using assms(1) by (simp add: get_job_def)
  show ?thesis
    using assms(2,3)
    by (auto simp: update_job_failure_def sel Let_def
          timedelta_seconds_def datetime_add_def datetime_limit_def)
qed

text \<open>Two histories that the examples start from.\<close>

lemma run_leased_row:
  "run_ops [(63902822400000000, Enqueue (example_job R)),
            (63902822401000000, Acquire ''w1'' False tie)] [] =
     (if sqlite_integer R then [leased_row R] else [])"
  by (simp add: example_job_def leased_row_def enqueue_job_def acquire_job_def not_null_def
        sql_insert_def sql_select_def sql_update_def fetchone_def
        order_by_created_at_limit_1_def)

lemma acquire_older_job:
  "acquire_job ''w1'' 63902822401000000 False tie [pending_row R, other_row]
     = (Some (leased_row R), [leased_row R, other_row])"
  by (simp add: pending_row_def other_row_def leased_row_def acquire_job_def
        sql_select_def sql_update_def fetchone_def order_by_created_at_limit_1_def)

subsection \<open>Every operation keeps the lease fields consistent with the state\<close>

lemma lease_sql_update:
  assumes "\<forall>r \<in> set tbl. lease_consistent r"
    and "\<And>r. w r \<Longrightarrow> lease_consistent r \<Longrightarrow> lease_consistent (f r)"
  shows "\<forall>r \<in> set (sql_update w f tbl). lease_consistent r"
  using assms by (auto simp: sql_update_def)

lemma lease_enqueue_job:
  assumes "\<forall>r \<in> set tbl. lease_consistent r"
    and "enqueue_job now job tbl = Inr res"
  shows "\<forall>r \<in> set (snd res). lease_consistent r"
  using assms
  by (auto simp: enqueue_job_def sql_insert_def not_null_def lease_consistent_def Let_def
        split: if_splits nullable.splits option.splits)

lemma lease_acquire_job:
  assumes "\<forall>r \<in> set tbl. lease_consistent r"
  shows "\<forall>r \<in> set (snd (acquire_job worker_id now contended tie tbl)). lease_consistent r"
proof (cases "contended \<or> fetchone (order_by_created_at_limit_1 tie
                (sql_select (\<lambda>r. state r = Pending \<and> next_run_at r \<le> now) tbl)) = None")
  case True
  then show ?thesis
    using assms by (auto simp: acquire_job_def)
next
  case False
  then obtain row where "fetchone (order_by_created_at_limit_1 tie
                (sql_select (\<lambda>r. state r = Pending \<and> next_run_at r \<le> now) tbl)) = Some row"
    and "\<not> contended"
    by auto
  then have "snd (acquire_job worker_id now contended tie tbl) =
      sql_update (\<lambda>r. job_id r = job_id row)
         (\<lambda>r. r\<lparr> state := Processing, locked_by := Some worker_id, locked_at := Some now,
                 attempts := attempts r + 1, updated_at := now \<rparr>) tbl"
    by (simp add: acquire_job_def Let_def)
  moreover have "\<forall>r \<in> set (sql_update (\<lambda>r. job_id r = job_id row)
         (\<lambda>r. r\<lparr> state := Processing, locked_by := Some worker_id, locked_at := Some now,
                 attempts := attempts r + 1, updated_at := now \<rparr>) tbl). lease_consistent r"
    using assms by (rule lease_sql_update) (simp add: lease_consistent_def)
  ultimately show ?thesis by simp
qed

lemma lease_update_job_success:
  assumes "\<forall>r \<in> set tbl. lease_consistent r"
  shows "\<forall>r \<in> set (update_job_success now jid tbl). lease_consistent r"
  unfolding update_job_success_def
  using assms by (rule lease_sql_update) (simp add: lease_consistent_def)

lemma lease_update_job_failure:
  assumes "\<forall>r \<in> set tbl. lease_consistent r"
    and "update_job_failure now jid error backoff_base tbl = Inr tbl'"
  shows "\<forall>r \<in> set tbl'. lease_consistent r"
proof -
  have dead: "\<forall>r \<in> set (sql_update (\<lambda>r. job_id r = jid)
      (\<lambda>r. r\<lparr> state := Dead, updated_at := now, last_error := Some error,
              locked_by := None, locked_at := None \<rparr>) tbl). lease_consistent r"
    using assms(1) by (rule lease_sql_update) (simp add: lease_consistent_def)
  have failed: "\<forall>r \<in> set (sql_update (\<lambda>r. job_id r = jid)
      (\<lambda>r. r\<lparr> state := Failed, updated_at := now, next_run_at := t, last_error := Some error,
              locked_by := None, locked_at := None \<rparr>) tbl). lease_consistent r" for t
    using assms(1) by (rule lease_sql_update) (simp add: lease_consistent_def)
  show ?thesis
    using assms dead failed
    by (auto simp: update_job_failure_def Let_def split: option.splits if_splits sum.splits)
qed

lemma lease_recover_abandoned_jobs:
  assumes "\<forall>r \<in> set tbl. lease_consistent r"
    and "recover_abandoned_jobs now threshold_seconds tbl = Inr tbl'"
  shows "\<forall>r \<in> set tbl'. lease_consistent r"
proof -
  have "\<forall>r \<in> set (sql_update w
      (\<lambda>r. r\<lparr> state := Pending, locked_by := None, locked_at := None \<rparr>) tbl). lease_consistent r" for w
    using assms(1) by (rule lease_sql_update) (simp add: lease_consistent_def)
  then show ?thesis
    using assms
    by (auto simp: recover_abandoned_jobs_def Let_def split: sum.splits if_splits)
qed

lemma lease_retry_dlq_job:
  assumes "\<forall>r \<in> set tbl. lease_consistent r"
  shows "\<forall>r \<in> set (snd (retry_dlq_job now jid reset_attempts tbl)). lease_consistent r"
proof -
  let ?w = "\<lambda>r. job_id r = jid \<and> state r = Dead"
  have a: "\<forall>r \<in> set (sql_update ?w
      (\<lambda>r. r\<lparr> state := Pending, attempts := 0, next_run_at := now, updated_at := now,
              last_error := None \<rparr>) tbl). lease_consistent r"
    using assms by (rule lease_sql_update) (simp add: lease_consistent_def)
  have b: "\<forall>r \<in> set (sql_update ?w
      (\<lambda>r. r\<lparr> state := Pending, next_run_at := now, updated_at := now,
              last_error := None \<rparr>) tbl). lease_consistent r"
    using assms by (rule lease_sql_update) (simp add: lease_consistent_def)
  show ?thesis
    using assms a b by (simp add: retry_dlq_job_def Let_def)
qed

lemma lease_delete_dlq_job:
  assumes "\<forall>r \<in> set tbl. lease_consistent r"
  shows "\<forall>r \<in> set (snd (delete_dlq_job jid tbl)). lease_consistent r"
  using assms by (simp add: delete_dlq_job_def sql_delete_def Let_def)

lemma lease_apply_op:
  assumes "\<forall>r \<in> set tbl. lease_consistent r"
  shows "\<forall>r \<in> set (apply_op now op tbl). lease_consistent r"
proof (cases op)
  case (Enqueue job)
  then show ?thesis
    using assms lease_enqueue_job [OF assms] by (simp split: sum.splits)
next
  case (Acquire worker_id contended tie)
  then show ?thesis using lease_acquire_job [OF assms] by simp
next
  case (Complete jid)
  then show ?thesis using lease_update_job_success [OF assms] by simp
next
  case (Fail jid error backoff_base)
  then show ?thesis
    using assms lease_update_job_failure [OF assms] by (simp split: sum.splits)
next
  case (RecoverAbandoned threshold_seconds)
  then show ?thesis
    using assms lease_recover_abandoned_jobs [OF assms] by (simp split: sum.splits)
next
  case (RetryDlq jid reset_attempts)
  then show ?thesis using lease_retry_dlq_job [OF assms] by simp
next
  case (DeleteDlq jid)
  then show ?thesis using lease_delete_dlq_job [OF assms] by simp
qed

lemma lease_run_ops:
  assumes "\<forall>r \<in> set tbl. lease_consistent r"
  shows "\<forall>r \<in> set (run_ops ops tbl). lease_consistent r"
  using assms
proof (induction ops arbitrary: tbl)
  case Nil
  then show ?case by simp
next
  case (Cons a ops)
  obtain now op where a: "a = (now, op)" by (cases a)
  show ?case
    unfolding a run_ops.simps
    by (rule Cons.IH) (rule lease_apply_op [OF Cons.prems])
qed

section \<open>Claims\<close>

subsection \<open>C1: acquire\_job\<close>

text \<open>
  Claim C1. \<^verbatim>\<open>acquire(worker_id)\<close>: if some job has state \<open>Pending\<close> or \<open>Failed\<close> and
  \<open>next_run_at \<le> now\<close>, the one with the smallest \<open>created_at\<close> becomes \<open>Processing\<close>,
  locked by the worker at \<open>now\<close>, with \<open>attempts\<close> incremented, and is returned;
  otherwise nothing is returned and no row changes.

  The query of \<open>acquire_job\<close> selects \<open>Pending\<close> rows only. The history below enqueues a
  job with \<open>max_retries = 3\<close>, acquires it and fails it once with \<open>backoff_base = 2\<close>: the
  job is then \<open>Failed\<close> and due from second 3 on. At second 60 \<open>acquire_job\<close> returns
  nothing and leaves the table as it is, where the claim has the job acquired.
\<close>

theorem acquire_job_skips_failed_job:
  "run_ops [(0, Enqueue (example_job 3)), (0, Acquire ''w1'' False tie),
            (1000000, Fail ''j1'' ''Exit code: 1'' 2)] [] = failed_job_table \<and>
   map state failed_job_table = [Failed] \<and>
   map next_run_at failed_job_table = [3000000] \<and>
   acquire_job ''w2'' 60000000 False tie' failed_job_table = (None, failed_job_table)"
  by (simp add: example_job_def failed_job_table_def enqueue_job_def acquire_job_def
        update_job_failure_def not_null_def sqlite_integer_def
        sql_insert_def sql_select_def sql_update_def fetchone_def
        order_by_created_at_limit_1_def
        timedelta_seconds_def datetime_add_def datetime_limit_def)

subsection \<open>C2: the retry budget\<close>

text \<open>
  Claim C2. A job enqueued with \<open>max_retries = R \<ge> 0\<close> whose every attempt fails reaches
  \<open>Dead\<close> after exactly \<open>R + 1\<close> acquisitions, with \<open>attempts = R + 1\<close>.

  With \<open>R = 1\<close> the job is \<open>Dead\<close> after one acquisition, with \<open>attempts = 1\<close>:
\<close>

theorem retry_budget_counterexample:
  "run_ops [(0, Enqueue (example_job 1)), (0, Acquire ''w1'' False 0),
            (1000000, Fail ''j1'' ''Exit code: 1'' 2)] [] =
     [\<lparr> job_id = ''j1'', command = ''exit 1'', state = Dead, attempts = 1, max_retries = 1,
        created_at = 0, updated_at = 1000000, next_run_at = 0,
        last_error = Some ''Exit code: 1'', locked_by = None, locked_at = None \<rparr>]"
  by (simp add: example_job_def enqueue_job_def acquire_job_def
        update_job_failure_def not_null_def sqlite_integer_def
        sql_insert_def sql_select_def sql_update_def fetchone_def
        order_by_created_at_limit_1_def)

text \<open>
  Claim C2, amended. \<open>update_job_failure\<close> compares \<open>max_retries\<close> with the counter that
  \<open>acquire_job\<close> has already incremented. Whenever \<open>acquire_job\<close> returns a job, in any
  table, the job's \<open>attempts\<close> is one more than before (so \<open>1\<close> at the first acquisition
  of an enqueued job, which starts with \<open>attempts = 0\<close>) and its \<open>max_retries\<close> is
  unchanged. When that attempt fails, \<open>update_job_failure\<close> leaves \<open>attempts\<close> as it is
  and makes the job \<open>Dead\<close> exactly when \<open>attempts \<ge> max_retries\<close>; when
  \<open>attempts < max_retries\<close> it makes the job \<open>Failed\<close>, or raises
  \<^verbatim>\<open>OverflowError\<close> and changes nothing if \<open>now + backoff_base ^ attempts\<close> seconds
  cannot be represented. So a job with \<open>R \<le> 1\<close> is dead after one acquisition, with
  \<open>attempts = 1\<close>, and a job with \<open>R \<ge> 2\<close> is not dead after its first failed attempt.
\<close>

theorem retry_budget_threshold:
  assumes acq: "acquire_job worker_id now1 contended tie tbl = (Some row, tbl1)"
  shows "(\<exists>r0. get_job (job_id row) tbl = Some r0 \<and>
            attempts row = attempts r0 + 1 \<and> max_retries row = max_retries r0) \<and>
    (int (attempts row) \<ge> max_retries row \<longrightarrow>
      (\<exists>tbl2 row'. update_job_failure now2 (job_id row) error backoff_base tbl1 = Inr tbl2 \<and>
         get_job (job_id row) tbl2 = Some row' \<and>
         state row' = Dead \<and> attempts row' = attempts row)) \<and>
    (int (attempts row) < max_retries row \<longrightarrow>
      (if - 999999999 \<le> backoff_base ^ attempts row div 86400 \<and>
          backoff_base ^ attempts row div 86400 \<le> 999999999 \<and>
          0 \<le> now2 + backoff_base ^ attempts row * 1000000 \<and>
          now2 + backoff_base ^ attempts row * 1000000 < 315537897600000000
       then \<exists>tbl2 row'. update_job_failure now2 (job_id row) error backoff_base tbl1 = Inr tbl2 \<and>
         get_job (job_id row) tbl2 = Some row' \<and>
         state row' = Failed \<and> attempts row' = attempts row
       else update_job_failure now2 (job_id row) error backoff_base tbl1 = Inl OverflowError))"
proof -
  from acquire_job_SomeD [OF acq] obtain r0 where
    r0: "get_job (job_id row) tbl = Some r0"
    and row: "row = r0\<lparr> state := Processing, locked_by := Some worker_id,
                      locked_at := Some now1, attempts := attempts r0 + 1, updated_at := now1 \<rparr>"
    and got: "get_job (job_id row) tbl1 = Some row"
    by blast
  from row have "attempts row = attempts r0 + 1" and "max_retries row = max_retries r0"
    by simp_all
  with r0 have first: "\<exists>r0. get_job (job_id row) tbl = Some r0 \<and>
            attempts row = attempts r0 + 1 \<and> max_retries row = max_retries r0"
    by blast
  show ?thesis
    using first update_job_failure_dead [OF got, of now2 error backoff_base]
      update_job_failure_failed [OF got, of backoff_base now2 error]
      update_job_failure_raises [OF got, of backoff_base now2 error]
    by auto
qed

theorem retry_budget_threshold_witness:
  "run_ops [(63902822400000000, Enqueue (example_job 1)),
            (63902822400500000, Enqueue other_job)] [] = [pending_row 1, other_row] \<and>
   acquire_job ''w1'' 63902822401000000 False 0 [pending_row 1, other_row]
     = (Some (leased_row 1), [leased_row 1, other_row]) \<and>
   get_job ''j1'' [pending_row 1, other_row] = Some (pending_row 1) \<and>
   attempts (pending_row 1) = 0 \<and> attempts (leased_row 1) = 1 \<and>
   max_retries (leased_row 1) = 1 \<and>
   (\<exists>tbl2 row'. update_job_failure 63902822402000000 ''j1'' ''Exit code: 1'' 2
                   [leased_row 1, other_row] = Inr tbl2 \<and>
      get_job ''j1'' tbl2 = Some row' \<and> state row' = Dead \<and> attempts row' = 1) \<and>
   (\<exists>tbl2 row'. update_job_failure 63902822402000000 ''j1'' ''Exit code: 1'' 2
                   [leased_row 3, other_row] = Inr tbl2 \<and>
      get_job ''j1'' tbl2 = Some row' \<and> state row' = Failed \<and> attempts row' = 1) \<and>
   update_job_failure 63902822402000000 ''j1'' ''Exit code: 1'' 1000000000000
       [leased_row 3, other_row] = Inl OverflowError"
proof -
  have hist: "run_ops [(63902822400000000, Enqueue (example_job 1)),
            (63902822400500000, Enqueue other_job)] [] = [pending_row 1, other_row]"
    by (simp add: example_job_def other_job_def pending_row_def other_row_def enqueue_job_def
          not_null_def sqlite_integer_def sql_insert_def)
  have id: "job_id (leased_row R) = ''j1''" for R
    by (simp add: leased_row_def)
  show ?thesis
    using hist acquire_older_job [of 0 1]
      retry_budget_threshold [OF acquire_older_job [of 0 1],
        of 63902822402000000 "''Exit code: 1''" 2]
      retry_budget_threshold [OF acquire_older_job [of 0 3],
        of 63902822402000000 "''Exit code: 1''" 2]
      retry_budget_threshold [OF acquire_older_job [of 0 3],
        of 63902822402000000 "''Exit code: 1''" 1000000000000]
    by (simp add: id) (simp add: leased_row_def pending_row_def)
qed

subsection \<open>C3: update\_job\_failure\<close>

text \<open>
  Claim C3. For every call \<^verbatim>\<open>fail(job_id, error, backoff_base)\<close> on an existing job:
  if the job's current \<open>attempts \<ge> max_retries\<close>, the job becomes \<open>Dead\<close> with
  \<open>locked_by\<close> and \<open>locked_at\<close> cleared and \<open>last_error = error\<close>; otherwise it becomes
  \<open>Failed\<close> with \<open>next_run_at = now + backoff_base ^ attempts\<close> seconds, the lease fields
  cleared and \<open>last_error = error\<close>.

  Not for every call: a job acquired on 2026-01-01 with \<open>attempts = 1 < max_retries = 3\<close>
  and failed with \<open>backoff_base = 10 ^ 12\<close> would be due more than 31000 years later, past
  the year 9999, the last one a \<^verbatim>\<open>datetime\<close> holds. The call raises
  \<^verbatim>\<open>OverflowError\<close>, and the job stays \<open>Processing\<close> with its lease:
\<close>

theorem update_job_failure_counterexample:
  "run_ops [(63902822400000000, Enqueue (example_job 3)),
            (63902822401000000, Acquire ''w1'' False 0)] [] = [leased_row 3] \<and>
   get_job ''j1'' [leased_row 3] = Some (leased_row 3) \<and>
   int (attempts (leased_row 3)) < max_retries (leased_row 3) \<and>
   update_job_failure 63902822402000000 ''j1'' ''Exit code: 1'' 1000000000000 [leased_row 3]
     = Inl OverflowError"
  unfolding run_leased_row
  by (simp add: sqlite_integer_def leased_row_def update_job_failure_def sql_select_def
        fetchone_def timedelta_seconds_def datetime_add_def datetime_limit_def)

text \<open>
  Claim C3, amended. For every call \<^verbatim>\<open>fail(job_id, error, backoff_base)\<close> on an existing
  job: if \<open>attempts \<ge> max_retries\<close>, the job becomes \<open>Dead\<close> with the lease fields
  cleared and \<open>last_error = error\<close>. Otherwise, if the delay of
  \<open>backoff_base ^ attempts\<close> seconds is at most 999999999 days in either direction and
  \<open>now\<close> plus the delay lies in the years 1 to 9999, the job becomes \<open>Failed\<close> with
  \<open>next_run_at = now + backoff_base ^ attempts\<close> seconds, the lease fields cleared and
  \<open>last_error = error\<close>; if not, the call raises \<^verbatim>\<open>OverflowError\<close> and changes
  nothing. The exponent is the counter as \<^verbatim>\<open>acquire\<close> left it: in the example the
  first failure of a job waits \<open>2 ^ 1\<close> seconds. Both transitions also set
  \<open>updated_at = now\<close> and leave every other column of the job as it was.
\<close>

theorem update_job_failure_spec:
  assumes "get_job jid tbl = Some row"
  shows "(int (attempts row) \<ge> max_retries row \<longrightarrow>
      (\<exists>tbl'. update_job_failure now jid error backoff_base tbl = Inr tbl' \<and>
         get_job jid tbl' =
           Some (row\<lparr> state := Dead, updated_at := now, last_error := Some error,
                      locked_by := None, locked_at := None \<rparr>))) \<and>
    (int (attempts row) < max_retries row \<longrightarrow>
      (if - 999999999 \<le> backoff_base ^ attempts row div 86400 \<and>
          backoff_base ^ attempts row div 86400 \<le> 999999999 \<and>
          0 \<le> now + backoff_base ^ attempts row * 1000000 \<and>
          now + backoff_base ^ attempts row * 1000000 < 315537897600000000
       then \<exists>tbl'. update_job_failure now jid error backoff_base tbl = Inr tbl' \<and>
         get_job jid tbl' =
           Some (row\<lparr> state := Failed, updated_at := now,
                      next_run_at := now + backoff_base ^ attempts row * 1000000,
                      last_error := Some error, locked_by := None, locked_at := None \<rparr>)
       else update_job_failure now jid error backoff_base tbl = Inl OverflowError))"
  using update_job_failure_dead [OF assms, of now error backoff_base]
    update_job_failure_failed [OF assms, of backoff_base now error]
    update_job_failure_raises [OF assms, of backoff_base now error]
  by auto

theorem update_job_failure_spec_witness:
  "get_job ''j1'' [leased_row 3] = Some (leased_row 3) \<and>
   (\<exists>tbl'. update_job_failure 63902822402000000 ''j1'' ''boom'' 2 [leased_row 3] = Inr tbl' \<and>
      get_job ''j1'' tbl' =
        Some \<lparr> job_id = ''j1'', command = ''exit 1'', state = Failed, attempts = 1,
                max_retries = 3, created_at = 63902822400000000,
                updated_at = 63902822402000000, next_run_at = 63902822404000000,
                last_error = Some ''boom'', locked_by = None, locked_at = None \<rparr>) \<and>
   update_job_failure 63902822402000000 ''j1'' ''boom'' 1000000000000 [leased_row 3]
     = Inl OverflowError \<and>
   get_job ''j1'' [leased_row 1] = Some (leased_row 1) \<and>
   (\<exists>tbl'. update_job_failure 63902822402000000 ''j1'' ''boom'' 2 [leased_row 1] = Inr tbl' \<and>
      get_job ''j1'' tbl' =
        Some \<lparr> job_id = ''j1'', command = ''exit 1'', state = Dead, attempts = 1,
                max_retries = 1, created_at = 63902822400000000,
                updated_at = 63902822402000000, next_run_at = 63902822400000000,
                last_error = Some ''boom'', locked_by = None, locked_at = None \<rparr>)"
proof -
  have g: "get_job ''j1'' [leased_row R] = Some (leased_row R)" for R
    by (simp add: leased_row_def)
  show ?thesis
    using g update_job_failure_spec [OF g, of 3 63902822402000000 "''boom''" 2]
      update_job_failure_spec [OF g, of 3 63902822402000000 "''boom''" 1000000000000]
      update_job_failure_spec [OF g, of 1 63902822402000000 "''boom''" 2]
    by (simp add: leased_row_def)
qed

subsection \<open>C4: lease fields and state\<close>

text \<open>
  Claim C4. In every row of every table reached from the empty table by a sequence of
  \<^verbatim>\<open>enqueue\<close>, \<^verbatim>\<open>acquire\<close>, \<^verbatim>\<open>complete\<close>, \<^verbatim>\<open>fail\<close>,
  \<^verbatim>\<open>recover_abandoned\<close>, \<^verbatim>\<open>retry_dlq\<close> and \<^verbatim>\<open>delete_dlq\<close> calls, with any
  arguments and at any times: \<open>locked_by\<close> is set if and only if \<open>locked_at\<close> is set, if and
  only if the state is \<open>Processing\<close>.
\<close>

theorem lease_invariant:
  "\<forall>r \<in> set (run_ops ops []).
     (locked_by r \<noteq> None \<longleftrightarrow> locked_at r \<noteq> None) \<and>
     (locked_at r \<noteq> None \<longleftrightarrow> state r = Processing)"
  using lease_run_ops [of "[]" ops] by (simp add: lease_consistent_def)

theorem lease_invariant_witness:
  "\<lparr> job_id = ''j1'', command = ''exit 1'', state = Processing, attempts = 1,
      max_retries = 3, created_at = 0, updated_at = 5, next_run_at = 0,
      last_error = None, locked_by = Some ''w1'', locked_at = Some 5 \<rparr>
     \<in> set (run_ops [(0, Enqueue (example_job 3)), (5, Acquire ''w1'' False 0)] []) \<and>
   failed_job_table = run_ops [(0, Enqueue (example_job 3)), (0, Acquire ''w1'' False 0),
                 (1000000, Fail ''j1'' ''Exit code: 1'' 2)] [] \<and>
   map locked_by failed_job_table = [None] \<and>
   map locked_at failed_job_table = [None] \<and>
   map state failed_job_table = [Failed]"
  using lease_invariant [of "[(0, Enqueue (example_job 3)), (5, Acquire ''w1'' False 0)]"]
    lease_invariant [of "[(0, Enqueue (example_job 3)), (0, Acquire ''w1'' False 0),
                 (1000000, Fail ''j1'' ''Exit code: 1'' 2)]"]
  by (simp add: example_job_def failed_job_table_def enqueue_job_def acquire_job_def
        update_job_failure_def not_null_def sqlite_integer_def
        sql_insert_def sql_select_def sql_update_def fetchone_def
        order_by_created_at_limit_1_def
        timedelta_seconds_def datetime_add_def datetime_limit_def)

subsection \<open>C5: enqueue\_job\<close>




subsection \<open>C6: retry\_dlq\_job\<close>

text \<open>
  Claim C6. \<^verbatim>\<open>retry_dlq(job_id, reset_attempts)\<close> changes a row only if it has the
  given id and is \<open>Dead\<close>; such a row becomes \<open>Pending\<close> with \<open>next_run_at = now\<close>
  and \<open>last_error\<close> cleared (and \<open>updated_at = now\<close>), and its \<open>attempts\<close> becomes
  \<open>0\<close> exactly when \<open>reset_attempts\<close> holds and is unchanged otherwise. The call
  returns true exactly when a row was changed; when no row with that id is \<open>Dead\<close> it
  returns false and the table is unchanged.
\<close>

theorem retry_dlq_job_spec:
  "length (snd (retry_dlq_job now jid reset_attempts tbl)) = length tbl \<and>
   (\<forall>i < length tbl.
      snd (retry_dlq_job now jid reset_attempts tbl) ! i =
        (if job_id (tbl ! i) = jid \<and> state (tbl ! i) = Dead
         then (tbl ! i)\<lparr> state := Pending,
                          attempts := (if reset_attempts then 0 else attempts (tbl ! i)),
                          next_run_at := now,
                          updated_at := now,
                          last_error := None \<rparr>
         else tbl ! i)) \<and>
   (fst (retry_dlq_job now jid reset_attempts tbl)
      \<longleftrightarrow> (\<exists>r \<in> set tbl. job_id r = jid \<and> state r = Dead)) \<and>
   (fst (retry_dlq_job now jid reset_attempts tbl)
      \<longleftrightarrow> snd (retry_dlq_job now jid reset_attempts tbl) \<noteq> tbl) \<and>
   (\<not> (\<exists>r \<in> set tbl. job_id r = jid \<and> state r = Dead)
      \<longrightarrow> retry_dlq_job now jid reset_attempts tbl = (False, tbl))"
proof -
  let ?w = "\<lambda>r. job_id r = jid \<and> state r = Dead"
  let ?res = "retry_dlq_job now jid reset_attempts tbl"
  show ?thesis
  proof (cases "\<exists>r \<in> set tbl. ?w r")
    case False
    then have "?res = (False, tbl)"
      by (simp add: retry_dlq_job_def total_changes_pos Let_def)
    moreover have "\<not> ?w (tbl ! i)" if "i < length tbl" for i
      using False that nth_mem by blast
    ultimately show ?thesis
      using False by auto
  next
    case True
    then obtain k where k: "k < length tbl" "?w (tbl ! k)"
      by (auto simp: in_set_conv_nth)
    have res: "?res = (True, sql_update ?w
        (\<lambda>r. r\<lparr> state := Pending, attempts := (if reset_attempts then 0 else attempts r),
                next_run_at := now, updated_at := now, last_error := None \<rparr>) tbl)"
      using True by (simp add: retry_dlq_job_def total_changes_pos Let_def)
    have "snd ?res ! k \<noteq> tbl ! k"
    proof
      assume "snd ?res ! k = tbl ! k"
      then have "state (snd ?res ! k) = state (tbl ! k)" by simp
      then show False using k by (simp add: res nth_sql_update)
    qed
    then have neq: "snd ?res \<noteq> tbl" by auto
    show ?thesis
      using True neq by (simp add: res nth_sql_update)
  qed
qed

theorem retry_dlq_job_spec_witness:
  "(2::nat) < length example_table \<and>
   job_id (example_table ! 2) = ''d'' \<and> state (example_table ! 2) = Dead \<and>
   retry_dlq_job 9 ''d'' True example_table =
     (True, example_table [2 := (example_row ''d'' Pending)
         \<lparr> attempts := 0, next_run_at := 9, updated_at := 9, last_error := None \<rparr>]) \<and>
   retry_dlq_job 9 ''d'' False example_table =
     (True, example_table [2 := (example_row ''d'' Pending)
         \<lparr> next_run_at := 9, updated_at := 9, last_error := None \<rparr>]) \<and>
   \<not> (\<exists>r \<in> set example_table. job_id r = ''f'' \<and> state r = Dead) \<and>
   retry_dlq_job 9 ''f'' True example_table = (False, example_table)"
  using retry_dlq_job_spec [of 9 "''d''" True example_table]
    retry_dlq_job_spec [of 9 "''d''" False example_table]
    retry_dlq_job_spec [of 9 "''f''" True example_table]
  by (simp add: example_table_def example_row_def retry_dlq_job_def total_changes_def
        sql_update_def)

subsection \<open>C7: recover\_abandoned\_jobs\<close>

text \<open>
  Claim C7. \<^verbatim>\<open>recover_abandoned(threshold_seconds)\<close> resets exactly the rows that are
  \<open>Processing\<close> with \<open>locked_at < now - threshold_seconds\<close> to \<open>Pending\<close> with
  \<open>locked_by\<close> and \<open>locked_at\<close> cleared; \<open>attempts\<close> of every row is unchanged, and
  every other row is left as it was.

  Not for every threshold: with \<open>threshold_seconds = - 10 ^ 12\<close> the cutoff would lie more
  than 31000 years after \<open>now\<close>, past the year 9999. A row leased one second before the
  call is \<open>Processing\<close> with
  \<open>locked_at < now - threshold_seconds\<close>, but the call raises \<^verbatim>\<open>OverflowError\<close>
  and resets nothing:
\<close>

theorem recover_abandoned_jobs_counterexample:
  "state (leased_row 3) = Processing \<and>
   locked_at (leased_row 3) = Some 63902822401000000 \<and>
   (63902822401000000 :: int) < 63902822402000000 - (- 1000000000000) * 1000000 \<and>
   recover_abandoned_jobs 63902822402000000 (- 1000000000000) [leased_row 3]
     = Inl OverflowError"
  by (simp add: leased_row_def recover_abandoned_jobs_def timedelta_seconds_def
        datetime_sub_def datetime_limit_def)

text \<open>
  Claim C7, amended. If \<open>threshold_seconds\<close> is at most 999999999 days in either direction
  and \<open>now - threshold_seconds\<close> lies in the years 1 to 9999,
  \<^verbatim>\<open>recover_abandoned(threshold_seconds)\<close> resets exactly the rows that are
  \<open>Processing\<close> with \<open>locked_at < now - threshold_seconds\<close> to \<open>Pending\<close> with
  \<open>locked_by\<close> and \<open>locked_at\<close> cleared, \<open>attempts\<close> of every row is unchanged, and
  every other row is left as it was; if not, the call raises \<^verbatim>\<open>OverflowError\<close> and
  changes nothing.
\<close>

theorem recover_abandoned_jobs_spec:
  "(if - 999999999 \<le> threshold_seconds div 86400 \<and>
       threshold_seconds div 86400 \<le> 999999999 \<and>
       0 \<le> now - threshold_seconds * 1000000 \<and>
       now - threshold_seconds * 1000000 < 315537897600000000
    then \<exists>tbl'. recover_abandoned_jobs now threshold_seconds tbl = Inr tbl' \<and>
       length tbl' = length tbl \<and>
       (\<forall>i < length tbl.
          tbl' ! i =
            (if state (tbl ! i) = Processing \<and>
                (\<exists>t. locked_at (tbl ! i) = Some t \<and> t < now - threshold_seconds * 1000000)
             then (tbl ! i)\<lparr> state := Pending, locked_by := None, locked_at := None \<rparr>
             else tbl ! i) \<and>
          attempts (tbl' ! i) = attempts (tbl ! i))
    else recover_abandoned_jobs now threshold_seconds tbl = Inl OverflowError)"
proof (cases "- 999999999 \<le> threshold_seconds div 86400 \<and>
       threshold_seconds div 86400 \<le> 999999999 \<and>
       0 \<le> now - threshold_seconds * 1000000 \<and>
       now - threshold_seconds * 1000000 < 315537897600000000")
  case False
  then show ?thesis
    by (auto simp: recover_abandoned_jobs_def timedelta_seconds_def datetime_sub_def
          datetime_limit_def)
next
  case True
  let ?cutoff = "now - threshold_seconds * 1000000"
  let ?w = "\<lambda>r. state r = Processing \<and>
      (case locked_at r of None \<Rightarrow> False | Some t \<Rightarrow> t < ?cutoff)"
  let ?f = "\<lambda>r. r\<lparr> state := Pending, locked_by := None, locked_at := None \<rparr>"
  have w: "?w r \<longleftrightarrow> state r = Processing \<and> (\<exists>t. locked_at r = Some t \<and> t < ?cutoff)" for r
    by (cases "locked_at r") auto
  have "recover_abandoned_jobs now threshold_seconds tbl = Inr (sql_update ?w ?f tbl)"
  proof (cases "sql_select ?w tbl = []")
    case empty: True
    then have "\<forall>r \<in> set tbl. \<not> ?w r"
      by (simp add: sql_select_def filter_empty_conv)
    then have "sql_update ?w ?f tbl = tbl"
      by (rule sql_update_no_match)
    with empty True show ?thesis
      by (simp add: recover_abandoned_jobs_def timedelta_seconds_def datetime_sub_def
            datetime_limit_def Let_def)
  next
    case False
    with True show ?thesis
      by (simp add: recover_abandoned_jobs_def timedelta_seconds_def datetime_sub_def
            datetime_limit_def Let_def)
  qed
  with True show ?thesis
    by (simp add: nth_sql_update w)
qed

theorem recover_abandoned_jobs_spec_witness:
  "(3::nat) < length example_table \<and>
   state (example_table ! 3) = Processing \<and> locked_at (example_table ! 3) = Some 3 \<and>
   (3::int) < 5000010 - 5 * 1000000 \<and>
   recover_abandoned_jobs 5000010 5 example_table =
     Inr (example_table [3 := example_row ''r'' Pending]) \<and>
   recover_abandoned_jobs 5000000 5 example_table = Inr example_table \<and>
   recover_abandoned_jobs 5000000 6 example_table = Inl OverflowError"
  using recover_abandoned_jobs_spec [of 5 5000010 example_table]
    recover_abandoned_jobs_spec [of 5 5000000 example_table]
    recover_abandoned_jobs_spec [of 6 5000000 example_table]
  by (simp add: example_table_def example_row_def recover_abandoned_jobs_def
        sql_update_def sql_select_def timedelta_seconds_def datetime_sub_def datetime_limit_def)

subsection \<open>C8: repeated completion\<close>

text \<open>
  Claim C8. \<^verbatim>\<open>complete(job_id)\<close> sets \<open>state = Completed\<close>, clears \<open>locked_by\<close> and
  \<open>locked_at\<close> and sets \<open>updated_at\<close> to the time of the call. Completing the same job
  twice, at the times \<open>t1\<close> and then \<open>t2\<close>, leaves the table that one completion at
  \<open>t2\<close> leaves; apart from the column \<open>updated_at\<close>, which holds the time of the latest
  call, that is also the table one completion at \<open>t1\<close> leaves.
\<close>

theorem update_job_success_idempotent:
  "update_job_success t2 jid (update_job_success t1 jid tbl) = update_job_success t2 jid tbl \<and>
   map (\<lambda>r. r\<lparr> updated_at := 0 \<rparr>) (update_job_success t2 jid (update_job_success t1 jid tbl))
     = map (\<lambda>r. r\<lparr> updated_at := 0 \<rparr>) (update_job_success t1 jid tbl) \<and>
   (\<forall>row. get_job jid tbl = Some row \<longrightarrow>
      get_job jid (update_job_success t1 jid tbl)
        = Some (row\<lparr> state := Completed, updated_at := t1,
                      locked_by := None, locked_at := None \<rparr>) \<and>
      get_job jid (update_job_success t2 jid (update_job_success t1 jid tbl))
        = Some (row\<lparr> state := Completed, updated_at := t2,
                      locked_by := None, locked_at := None \<rparr>))"
proof -
  have twice: "update_job_success t2 jid (update_job_success t1 jid tbl) = update_job_success t2 jid tbl"
    unfolding update_job_success_def by (rule sql_update_twice) simp_all
  have forget: "map (\<lambda>r. r\<lparr> updated_at := 0 \<rparr>) (update_job_success t2 jid tbl)
     = map (\<lambda>r. r\<lparr> updated_at := 0 \<rparr>) (update_job_success t1 jid tbl)"
    by (simp add: update_job_success_def sql_update_def)
  have once: "get_job jid (update_job_success t jid tbl)
        = Some (row\<lparr> state := Completed, updated_at := t, locked_by := None, locked_at := None \<rparr>)"
    if "get_job jid tbl = Some row" for row t
    using that by (auto simp: update_job_success_def get_job_sql_update dest: get_job_SomeD)
  show ?thesis
    using twice forget once by simp
qed

theorem update_job_success_idempotent_witness:
  "get_job ''r'' example_table
     = Some ((example_row ''r'' Processing)\<lparr> locked_by := Some ''w1'', locked_at := Some 3 \<rparr>) \<and>
   get_job ''r'' (update_job_success 10 ''r'' example_table)
     = Some ((example_row ''r'' Completed)\<lparr> updated_at := 10 \<rparr>) \<and>
   get_job ''r'' (update_job_success 20 ''r'' (update_job_success 10 ''r'' example_table))
     = Some ((example_row ''r'' Completed)\<lparr> updated_at := 20 \<rparr>) \<and>
   update_job_success 20 ''r'' (update_job_success 10 ''r'' example_table)
     = update_job_success 20 ''r'' example_table"
  using update_job_success_idempotent [of 20 "''r''" 10 example_table]
  by (simp add: example_table_def example_row_def update_job_success_def sql_update_def)

subsection \<open>C9: the executor\<close>

text \<open>
  Claim C9. For every command, \<^verbatim>\<open>execute\<close> returns a result and raises nothing:
  a timeout gives return code \<open>-1\<close> and a standard error text that reports the timeout;
  \<^verbatim>\<open>FileNotFoundError\<close> gives return code \<open>127\<close>; any other exception gives
  return code \<open>-1\<close> with the exception's message in the standard error text; a run that
  completes gives the exit code of the subprocess.
\<close>

theorem execute_spec:
  "(\<exists>res. execute timeout subprocess_run elapsed cmd = Inr res) \<and>
   (\<forall>e. subprocess_run cmd = Inl (TimeoutExpired e) \<longrightarrow>
      execute timeout subprocess_run elapsed cmd =
        Inr \<lparr> returncode = - 1, stdout = [],
              stderr = ''Command timed out after '' @ str_int timeout @ '' seconds'',
              duration = elapsed \<rparr>) \<and>
   (\<forall>e. subprocess_run cmd = Inl (FileNotFoundError e) \<longrightarrow>
      execute timeout subprocess_run elapsed cmd =
        Inr \<lparr> returncode = 127, stdout = [],
              stderr = ''Command not found: '' @ e, duration = elapsed \<rparr>) \<and>
   (\<forall>e. subprocess_run cmd = Inl (OtherException e) \<longrightarrow>
      execute timeout subprocess_run elapsed cmd =
        Inr \<lparr> returncode = - 1, stdout = [],
              stderr = ''Execution error: '' @ e, duration = elapsed \<rparr>) \<and>
   (\<forall>p. subprocess_run cmd = Inr p \<longrightarrow>
      execute timeout subprocess_run elapsed cmd =
        Inr \<lparr> returncode = cp_returncode p, stdout = cp_stdout p,
              stderr = cp_stderr p, duration = elapsed \<rparr>)"
  by (auto simp: execute_def split: sum.splits py_exception.splits)

theorem execute_spec_witness:
  "example_run ''sleep 9999'' = Inl (TimeoutExpired ''timed out'') \<and>
   execute 3600 example_run 1 ''sleep 9999'' =
     Inr \<lparr> returncode = - 1, stdout = [],
           stderr = ''Command timed out after 3600 seconds'', duration = 1 \<rparr> \<and>
   example_run ''nosh'' = Inl (FileNotFoundError ''No such file or directory'') \<and>
   execute 3600 example_run 1 ''nosh'' =
     Inr \<lparr> returncode = 127, stdout = [],
           stderr = ''Command not found: No such file or directory'', duration = 1 \<rparr> \<and>
   example_run ''bad'' = Inl (OtherException ''embedded null byte'') \<and>
   execute 3600 example_run 1 ''bad'' =
     Inr \<lparr> returncode = - 1, stdout = [],
           stderr = ''Execution error: embedded null byte'', duration = 1 \<rparr> \<and>
   example_run ''exit 3'' = Inr \<lparr> cp_returncode = 3, cp_stdout = ''out'', cp_stderr = ''err'' \<rparr> \<and>
   execute 3600 example_run 1 ''exit 3'' =
     Inr \<lparr> returncode = 3, stdout = ''out'', stderr = ''err'', duration = 1 \<rparr>"
  using execute_spec [of 3600 example_run 1 "''sleep 9999''"]
    execute_spec [of 3600 example_run 1 "''nosh''"]
    execute_spec [of 3600 example_run 1 "''bad''"]
    execute_spec [of 3600 example_run 1 "''exit 3''"]
  by (simp add: example_run_def str_int_def)

subsection \<open>C10: update\_job\_success does not look at the state\<close>

text \<open>
  Claim C10. \<^verbatim>\<open>update_job_success\<close> does not check the current state of the job: on
  any existing job, whatever its state, it sets \<open>state = Completed\<close>, clears the lease
  fields and sets \<open>updated_at\<close>; for an id that no row has, the table is unchanged.
\<close>

theorem update_job_success_unconditional:
  "(\<forall>row. get_job jid tbl = Some row \<longrightarrow>
      get_job jid (update_job_success now jid tbl)
        = Some (row\<lparr> state := Completed, updated_at := now,
                      locked_by := None, locked_at := None \<rparr>)) \<and>
   (get_job jid tbl = None \<longrightarrow> update_job_success now jid tbl = tbl)"
  by (auto simp: update_job_success_def get_job_sql_update get_job_None_iff
        intro: sql_update_no_match dest: get_job_SomeD)

theorem update_job_success_unconditional_witness:
  "get_job ''p'' [example_row ''p'' Pending, example_row ''f'' Failed, example_row ''d'' Dead]
     = Some (example_row ''p'' Pending) \<and>
   get_job ''p'' (update_job_success 9 ''p''
       [example_row ''p'' Pending, example_row ''f'' Failed, example_row ''d'' Dead])
     = Some ((example_row ''p'' Pending)\<lparr> state := Completed, updated_at := 9,
                      locked_by := None, locked_at := None \<rparr>) \<and>
   get_job ''d'' (update_job_success 9 ''d''
       [example_row ''p'' Pending, example_row ''f'' Failed, example_row ''d'' Dead])
     = Some ((example_row ''d'' Dead)\<lparr> state := Completed, updated_at := 9,
                      locked_by := None, locked_at := None \<rparr>) \<and>
   get_job ''x'' [example_row ''p'' Pending] = None \<and>
   update_job_success 9 ''x'' [example_row ''p'' Pending] = [example_row ''p'' Pending]"
  using update_job_success_unconditional [of "''p''" "[example_row ''p'' Pending, example_row ''f'' Failed, example_row ''d'' Dead]" 9]
    update_job_success_unconditional [of "''d''" "[example_row ''p'' Pending, example_row ''f'' Failed, example_row ''d'' Dead]" 9]
    update_job_success_unconditional [of "''x''" "[example_row ''p'' Pending]" 9]
  by (simp add: example_row_def)

end
